theory Spec2Isabelle
  imports Complex_Main "HOL-Library.Word"
begin

section \<open>Package protocol: the basic JSON structures of the Language Server Protocol\<close>

text \<open>
  The package consists of declarations only. It is embedded twice:
  \<^item> as HOL types and constants (a struct is a record, a named basic type a type
    synonym, a constant a definition), so that values of the schema can be written;
  \<^item> as the list of its top-level declarations, in source order, so that properties
    of the declarations themselves (which names are declared, with which type, with
    which JSON tag) are statements about a value.
\<close>

subsection \<open>Go types and top-level declarations\<close>

text \<open>
  The type expressions that occur in the package. A struct field is either named
  (name, type, the \<^verbatim>\<open>json:"..."\<close> tag as written) or embedded (only a type name).
\<close>

datatype go_type =
    TString
  | TFloat64
  | TUint64
  | TEmptyInterface
  | TNamed string
  | TPointer go_type
  | TSlice go_type
  | TMap go_type go_type
  | TStruct "field list"
and field =
    Field string go_type string
  | Embedded string

datatype const_value = IntLit int | StrLit string

text \<open>
  The four kinds of top-level declaration of Go. A constant carries its declared
  type, if it has one; a function carries its receiver type, if it is a method.
\<close>

datatype decl =
    ConstDecl string "string option" const_value
  | TypeDecl string go_type
  | VarDecl string go_type
  | FuncDecl string "string option"

subsection \<open>The declarations of the package, in source order\<close>

definition package_decls :: "decl list" where
  "package_decls =
   [ ConstDecl ''CodeRequestCancelled'' None (IntLit (- 32800)),
     TypeDecl ''DocumentURI'' TString,
     TypeDecl ''Position'' (TStruct
       [ Field ''Line'' TFloat64 ''line'',
         Field ''Character'' TFloat64 ''character'' ]),
     TypeDecl ''Range'' (TStruct
       [ Field ''Start'' (TNamed ''Position'') ''start'',
         Field ''End'' (TNamed ''Position'') ''end'' ]),
     TypeDecl ''Location'' (TStruct
       [ Field ''URI'' (TNamed ''DocumentURI'') ''uri'',
         Field ''Range'' (TNamed ''Range'') ''range'' ]),
     TypeDecl ''LocationLink'' (TStruct
       [ Field ''OriginSelectionRange'' (TPointer (TNamed ''Range''))
           ''originSelectionRange,omitempty'',
         Field ''TargetURI'' TString ''targetUri'',
         Field ''TargetRange'' (TNamed ''Range'') ''targetRange'',
         Field ''TargetSelectionRange'' (TPointer (TNamed ''Range''))
           ''targetSeletionRange,omitempty'' ]),
     TypeDecl ''Diagnostic'' (TStruct
       [ Field ''Range'' (TNamed ''Range'') ''range'',
         Field ''Severity'' (TNamed ''DiagnosticSeverity'') ''severity,omitempty'',
         Field ''Code'' TString ''code,omitempty'',
         Field ''Source'' TString ''source,omitempty'',
         Field ''Message'' TString ''message'',
         Field ''Related'' (TSlice (TNamed ''DiagnosticRelatedInformation''))
           ''relatedInformation,omitempty'' ]),
     TypeDecl ''DiagnosticSeverity'' TFloat64,
     ConstDecl ''SeverityError'' (Some ''DiagnosticSeverity'') (IntLit 1),
     ConstDecl ''SeverityWarning'' (Some ''DiagnosticSeverity'') (IntLit 2),
     ConstDecl ''SeverityInformation'' (Some ''DiagnosticSeverity'') (IntLit 3),
     ConstDecl ''SeverityHint'' (Some ''DiagnosticSeverity'') (IntLit 4),
     TypeDecl ''DiagnosticRelatedInformation'' (TStruct
       [ Field ''Location'' (TNamed ''Location'') ''location'',
         Field ''Message'' TString ''message'' ]),
     TypeDecl ''Command'' (TStruct
       [ Field ''Title'' TString ''title'',
         Field ''Command'' TString ''command'',
         Field ''Arguments'' (TSlice TEmptyInterface) ''arguments,omitempty'' ]),
     TypeDecl ''TextEdit'' (TStruct
       [ Field ''Range'' (TNamed ''Range'') ''range'',
         Field ''NewText'' TString ''newText'' ]),
     TypeDecl ''TextDocumentEdit'' (TStruct
       [ Field ''TextDocument'' (TNamed ''VersionedTextDocumentIdentifier'')
           ''textDocument'',
         Field ''Edits'' (TSlice (TNamed ''TextEdit'')) ''edits'' ]),
     TypeDecl ''WorkspaceEdit'' (TStruct
       [ Field ''Changes'' (TMap (TNamed ''DocumentURI'') (TSlice (TNamed ''TextEdit'')))
           ''changes,omitempty'',
         Field ''DocumentChanges'' (TSlice (TNamed ''TextDocumentEdit''))
           ''documentChanges,omitempty'' ]),
     TypeDecl ''TextDocumentIdentifier'' (TStruct
       [ Field ''URI'' (TNamed ''DocumentURI'') ''uri'' ]),
     TypeDecl ''TextDocumentItem'' (TStruct
       [ Field ''URI'' (TNamed ''DocumentURI'') ''uri'',
         Field ''LanguageID'' TString ''languageId'',
         Field ''Version'' TFloat64 ''version'',
         Field ''Text'' TString ''text'' ]),
     TypeDecl ''VersionedTextDocumentIdentifier'' (TStruct
       [ Embedded ''TextDocumentIdentifier'',
         Field ''Version'' (TPointer TUint64) ''version'' ]),
     TypeDecl ''TextDocumentPositionParams'' (TStruct
       [ Field ''TextDocument'' (TNamed ''TextDocumentIdentifier'') ''textDocument'',
         Field ''Position'' (TNamed ''Position'') ''position'' ]),
     TypeDecl ''DocumentFilter'' (TStruct
       [ Field ''Language'' TString ''language,omitempty'',
         Field ''Scheme'' TString ''scheme,omitempty'',
         Field ''Pattern'' TString ''pattern,omitempty'' ]),
     TypeDecl ''DocumentSelector'' (TSlice (TNamed ''DocumentFilter'')),
     TypeDecl ''MarkupKind'' TString,
     ConstDecl ''PlainText'' (Some ''MarkupKind'') (StrLit ''plaintext''),
     ConstDecl ''Markdown'' (Some ''MarkupKind'') (StrLit ''markdown''),
     TypeDecl ''MarkupContent'' (TStruct
       [ Field ''Kind'' (TNamed ''MarkupKind'') ''kind'',
         Field ''Value'' TString ''value'' ]),
     TypeDecl ''PublishDiagnosticsParams'' (TStruct
       [ Field ''URI'' (TNamed ''DocumentURI'') ''uri'',
         Field ''Diagnostics'' (TSlice (TNamed ''Diagnostic'')) ''diagnostics'' ]) ]"

subsection \<open>Reading the declarations\<close>

fun decl_name :: "decl \<Rightarrow> string" where
  "decl_name (ConstDecl n _ _) = n"
| "decl_name (TypeDecl n _) = n"
| "decl_name (VarDecl n _) = n"
| "decl_name (FuncDecl n _) = n"

fun is_type_decl :: "decl \<Rightarrow> bool" where
  "is_type_decl (TypeDecl _ _) = True"
| "is_type_decl _ = False"

fun is_const_decl :: "decl \<Rightarrow> bool" where
  "is_const_decl (ConstDecl _ _ _) = True"
| "is_const_decl _ = False"

fun is_var_decl :: "decl \<Rightarrow> bool" where
  "is_var_decl (VarDecl _ _) = True"
| "is_var_decl _ = False"

fun is_func_decl :: "decl \<Rightarrow> bool" where
  "is_func_decl (FuncDecl _ _) = True"
| "is_func_decl _ = False"

text \<open>The type a name is declared as, and the type and value of a declared constant.\<close>

fun type_decl :: "decl list \<Rightarrow> string \<Rightarrow> go_type option" where
  "type_decl [] n = None"
| "type_decl (TypeDecl m t # ds) n = (if m = n then Some t else type_decl ds n)"
| "type_decl (_ # ds) n = type_decl ds n"

fun const_decl :: "decl list \<Rightarrow> string \<Rightarrow> (string option \<times> const_value) option" where
  "const_decl [] n = None"
| "const_decl (ConstDecl m ty v # ds) n = (if m = n then Some (ty, v) else const_decl ds n)"
| "const_decl (_ # ds) n = const_decl ds n"

text \<open>The type and the JSON tag of a field declared directly in a struct type.\<close>

fun direct_field :: "field list \<Rightarrow> string \<Rightarrow> (go_type \<times> string) option" where
  "direct_field [] f = None"
| "direct_field (Field g t tag # fs) f = (if g = f then Some (t, tag) else direct_field fs f)"
| "direct_field (Embedded _ # fs) f = direct_field fs f"

definition struct_field :: "decl list \<Rightarrow> string \<Rightarrow> string \<Rightarrow> (go_type \<times> string) option" where
  "struct_field ds n f =
     (case type_decl ds n of Some (TStruct fs) \<Rightarrow> direct_field fs f | _ \<Rightarrow> None)"

text \<open>
  The options of a JSON tag follow the first comma; \<^verbatim>\<open>omitempty\<close> makes the
  encoder leave the field out when it holds the zero value of its type.
\<close>

fun split_comma :: "string \<Rightarrow> string list" where
  "split_comma [] = [[]]"
| "split_comma (c # cs) =
     (if c = CHR '','' then [] # split_comma cs
      else (case split_comma cs of [] \<Rightarrow> [[c]] | w # ws \<Rightarrow> (c # w) # ws))"


definition omitempty :: "string \<Rightarrow> bool" where
  "omitempty tag = (case split_comma tag of [] \<Rightarrow> False | _ # opts \<Rightarrow> ''omitempty'' \<in> set opts)"

subsection \<open>The constants\<close>

text \<open>
  \<^verbatim>\<open>float64\<close> is modelled by the reals: the only values of that type the package
  itself writes are the literals 1 to 4, and the zero value 0, which \<^verbatim>\<open>float64\<close>
  represents exactly.
\<close>

type_synonym float64 = real
type_synonym DocumentURI = string
type_synonym DiagnosticSeverity = float64
type_synonym MarkupKind = string

definition CodeRequestCancelled :: int where
  "CodeRequestCancelled = - 32800"

definition SeverityError :: DiagnosticSeverity where
  "SeverityError = 1"

definition SeverityWarning :: DiagnosticSeverity where
  "SeverityWarning = 2"

definition SeverityInformation :: DiagnosticSeverity where
  "SeverityInformation = 3"

definition SeverityHint :: DiagnosticSeverity where
  "SeverityHint = 4"

definition PlainText :: MarkupKind where
  "PlainText = ''plaintext''"

definition Markdown :: MarkupKind where
  "Markdown = ''markdown''"

text \<open>The zero value of \<^verbatim>\<open>DiagnosticSeverity\<close>, which a field never assigned holds.\<close>

definition zero_DiagnosticSeverity :: DiagnosticSeverity where
  "zero_DiagnosticSeverity = 0"

text \<open>The reservation stated for \<^verbatim>\<open>MarkupKind\<close>: a kind must not start with a dollar sign.\<close>

fun starts_with_dollar :: "string \<Rightarrow> bool" where
  "starts_with_dollar [] = False"
| "starts_with_dollar (c # _) = (c = CHR ''$'')"

text \<open>
  A named type stands for the type it is declared as; \<open>underlying\<close> follows the
  names (at most as many steps as there are declarations) to a type literal.
\<close>

fun underlying :: "nat \<Rightarrow> decl list \<Rightarrow> go_type \<Rightarrow> go_type option" where
  "underlying 0 ds t = None"
| "underlying (Suc k) ds (TNamed n) =
     (case type_decl ds n of None \<Rightarrow> None | Some t \<Rightarrow> underlying k ds t)"
| "underlying (Suc k) ds t = Some t"

text \<open>
  The types of Go that have the value \<^verbatim>\<open>nil\<close> (which the JSON encoder writes as
  \<^verbatim>\<open>null\<close>): pointers, slices, maps and interfaces. Strings, numbers and structs
  do not.
\<close>

fun nilable_literal :: "go_type \<Rightarrow> bool" where
  "nilable_literal (TPointer _) = True"
| "nilable_literal (TSlice _) = True"
| "nilable_literal (TMap _ _) = True"
| "nilable_literal TEmptyInterface = True"
| "nilable_literal _ = False"

definition nilable :: "decl list \<Rightarrow> go_type \<Rightarrow> bool" where
  "nilable ds t =
     (case underlying (Suc (length ds)) ds t of None \<Rightarrow> False | Some u \<Rightarrow> nilable_literal u)"

text \<open>
  Field promotion: the fields named \<open>f\<close> that a selector on a value of the struct
  type \<open>n\<close> can reach, directly or through embedded structs, each with the path of
  field names that leads to it and its type.
\<close>

fun embedded_names :: "field list \<Rightarrow> string list" where
  "embedded_names [] = []"
| "embedded_names (Embedded n # fs) = n # embedded_names fs"
| "embedded_names (Field _ _ _ # fs) = embedded_names fs"

fun field_paths :: "nat \<Rightarrow> decl list \<Rightarrow> string \<Rightarrow> string \<Rightarrow> (string list \<times> go_type) list" where
  "field_paths 0 ds n f = []"
| "field_paths (Suc k) ds n f =
     (case type_decl ds n of
        Some (TStruct fs) \<Rightarrow>
          (case direct_field fs f of Some (t, _) \<Rightarrow> [([f], t)] | None \<Rightarrow> [])
          @ concat (map (\<lambda>e. map (\<lambda>(p, t). (e # p, t)) (field_paths k ds e f))
                        (embedded_names fs))
      | _ \<Rightarrow> [])"

text \<open>The declared type of a constant declaration, and the constants declared with a type.\<close>

fun const_type :: "decl \<Rightarrow> string option" where
  "const_type (ConstDecl _ ty _) = ty"
| "const_type _ = None"

definition consts_of_type :: "decl list \<Rightarrow> string \<Rightarrow> decl list" where
  "consts_of_type ds ty = filter (\<lambda>d. const_type d = Some ty) ds"






text \<open>Whether a type expression mentions the empty interface type.\<close>

fun has_interface :: "go_type \<Rightarrow> bool"
  and has_interface_field :: "field \<Rightarrow> bool"
  and has_interface_fields :: "field list \<Rightarrow> bool" where
  "has_interface TEmptyInterface = True"
| "has_interface (TPointer t) = has_interface t"
| "has_interface (TSlice t) = has_interface t"
| "has_interface (TMap k v) = (has_interface k \<or> has_interface v)"
| "has_interface (TStruct fs) = has_interface_fields fs"
| "has_interface TString = False"
| "has_interface TFloat64 = False"
| "has_interface TUint64 = False"
| "has_interface (TNamed _) = False"
| "has_interface_field (Field _ t _) = has_interface t"
| "has_interface_field (Embedded _) = False"
| "has_interface_fields [] = False"
| "has_interface_fields (f # fs) = (has_interface_field f \<or> has_interface_fields fs)"

text \<open>The fields of the package whose declared type mentions the empty interface.\<close>

fun interface_fields_of :: "string \<Rightarrow> field list \<Rightarrow> (string \<times> string) list" where
  "interface_fields_of n [] = []"
| "interface_fields_of n (Field f t _ # fs) =
     (if has_interface t then (n, f) # interface_fields_of n fs else interface_fields_of n fs)"
| "interface_fields_of n (Embedded _ # fs) = interface_fields_of n fs"

fun interface_fields :: "decl list \<Rightarrow> (string \<times> string) list" where
  "interface_fields [] = []"
| "interface_fields (TypeDecl n (TStruct fs) # ds) = interface_fields_of n fs @ interface_fields ds"
| "interface_fields (_ # ds) = interface_fields ds"

subsection \<open>The schema as HOL types\<close>

text \<open>
  Every struct is a record with the fields of the source, in the source's order. A
  pointer is an option (\<open>None\<close> is \<^verbatim>\<open>nil\<close>), a slice a list, a map a partial
  function, \<^verbatim>\<open>uint64\<close> a 64-bit word. An embedded struct is a field that holds the
  embedded structure and is named after its type, as it is in Go. Records are declared
  after the records they mention, so the order is not always the source's.
\<close>

text \<open>
  A value of the empty interface type \<^verbatim>\<open>interface{}\<close>: the package says nothing
  about what it holds, and the type is left unspecified accordingly.
\<close>

typedecl interface_value

record Position =
  Line :: float64
  Character :: float64

record Range =
  Start :: Position
  End :: Position

record Location =
  URI :: DocumentURI
  Range :: Range

record LocationLink =
  OriginSelectionRange :: "Range option"
  TargetURI :: string
  TargetRange :: Range
  TargetSelectionRange :: "Range option"

record DiagnosticRelatedInformation =
  Location :: Location
  Message :: string

record Diagnostic =
  Range :: Range
  Severity :: DiagnosticSeverity
  Code :: string
  Source :: string
  Message :: string
  Related :: "DiagnosticRelatedInformation list"

record Command =
  Title :: string
  Command :: string
  Arguments :: "interface_value list"

record TextEdit =
  Range :: Range
  NewText :: string

record TextDocumentIdentifier =
  URI :: DocumentURI

record TextDocumentItem =
  URI :: DocumentURI
  LanguageID :: string
  Version :: float64
  Text :: string

record VersionedTextDocumentIdentifier =
  TextDocumentIdentifier :: TextDocumentIdentifier
  Version :: "64 word option"

record TextDocumentEdit =
  TextDocument :: VersionedTextDocumentIdentifier
  Edits :: "TextEdit list"

record WorkspaceEdit =
  Changes :: "DocumentURI \<rightharpoonup> TextEdit list"
  DocumentChanges :: "TextDocumentEdit list"

record TextDocumentPositionParams =
  TextDocument :: TextDocumentIdentifier
  Position :: Position

record DocumentFilter =
  Language :: string
  Scheme :: string
  Pattern :: string

type_synonym DocumentSelector = "DocumentFilter list"

record MarkupContent =
  Kind :: MarkupKind
  Value :: string

record PublishDiagnosticsParams =
  URI :: DocumentURI
  Diagnostics :: "Diagnostic list"

section \<open>The codec of the JSON-RPC envelopes\<close>

text \<open>
  The codec that frames and parses the messages these structures travel in is not part
  of the package above. It is modelled here from its specification: the data model of
  an envelope, \<^verbatim>\<open>encode\<close> and \<^verbatim>\<open>decode\<close>, and the wire format. A text is a
  list of bytes, so the length of a text is its byte count. The specification names
  JSON without spelling out its grammar; the model follows the JSON grammar, and the
  encoder writes the canonical text without white space.
\<close>

subsection \<open>JSON values, their text, and the parser\<close>

text \<open>
  Modelled from the spec: the opaque JSON value of section 3 (params, result, error data).
  A number is kept as its digits \<open>m\<close> and a power of ten \<open>e\<close> and stands for
  \<open>m * 10 ^ e\<close>, so no floating point is involved; a string is its UTF-8 bytes; an
  object keeps its members in the order they are written.
\<close>

datatype json =
    JNull
  | JBool bool
  | JNumber int int
  | JString string
  | JArray "json list"
  | JObject "(string \<times> json) list"

text \<open>
  Modelled from the spec: the double quote of JSON text.
\<close>

definition dquote :: char where
  "dquote = CHR 0x22"

text \<open>
  Modelled from the spec: the backslash of JSON text.
\<close>

definition bslash :: char where
  "bslash = CHR 0x5C"

text \<open>
  Modelled from the spec: the decimal digits, as bytes.
\<close>

definition is_digit :: "char \<Rightarrow> bool" where
  "is_digit c = (48 \<le> (of_char c :: nat) \<and> (of_char c :: nat) \<le> 57)"

text \<open>
  Modelled from the spec: the byte of a decimal digit.
\<close>

definition digit_char :: "nat \<Rightarrow> char" where
  "digit_char d = char_of (48 + d)"

text \<open>
  Modelled from the spec: the value of a decimal digit.
\<close>

definition digit_val :: "char \<Rightarrow> nat" where
  "digit_val c = of_char c - 48"

text \<open>
  Modelled from the spec: the decimal text of a natural number, as the
  \<^verbatim>\<open><n>\<close> of the Content-Length header of section 6 and the numbers of the body
  are written.
\<close>

function digits :: "nat \<Rightarrow> string" where
  "digits n = (if n < 10 then [digit_char n] else digits (n div 10) @ [digit_char (n mod 10)])"
  by pat_completeness auto
termination
  by (relation "measure id") auto

text \<open>
  Modelled from the spec: the number a text of decimal digits stands for.
\<close>

definition nat_of_digits :: "string \<Rightarrow> nat" where
  "nat_of_digits cs = foldl (\<lambda>a c. 10 * a + digit_val c) 0 cs"

text \<open>
  Modelled from the spec: the decimal text of an integer.
\<close>

definition int_text :: "int \<Rightarrow> string" where
  "int_text i = (if i < 0 then CHR ''-'' # digits (nat (- i)) else digits (nat i))"

text \<open>
  Modelled from the spec: a hexadecimal digit, in lower case.
\<close>

definition hex_char :: "nat \<Rightarrow> char" where
  "hex_char d = (if d < 10 then char_of (48 + d) else char_of (87 + d))"

text \<open>
  Modelled from the spec: the value of a hexadecimal digit, of either case.
\<close>

definition hex_val :: "char \<Rightarrow> nat option" where
  "hex_val c =
     (let n = (of_char c :: nat) in
      if 48 \<le> n \<and> n \<le> 57 then Some (n - 48)
      else if 97 \<le> n \<and> n \<le> 102 then Some (n - 87)
      else if 65 \<le> n \<and> n \<le> 70 then Some (n - 55)
      else None)"

text \<open>
  Modelled from the spec: a byte inside a JSON string: the quote and the
  backslash are escaped, a control character is written as a \<^verbatim>\<open>\u00XX\<close> escape,
  any other byte (all of UTF-8 beyond ASCII) stands for itself.
\<close>

definition escape_char :: "char \<Rightarrow> string" where
  "escape_char c =
     (if c = dquote then [bslash, dquote]
      else if c = bslash then [bslash, bslash]
      else if (of_char c :: nat) < 32 then
        [bslash, CHR ''u'', CHR ''0'', CHR ''0'',
         hex_char (of_char c div 16), hex_char (of_char c mod 16)]
      else [c])"

text \<open>
  Modelled from the spec: a JSON string, between quotes.
\<close>

definition quote :: "string \<Rightarrow> string" where
  "quote s = dquote # concat (map escape_char s) @ [dquote]"

text \<open>
  Modelled from the spec: texts separated by commas.
\<close>

fun commas :: "string list \<Rightarrow> string" where
  "commas [] = []"
| "commas [x] = x"
| "commas (x # y # ys) = x @ CHR '','' # commas (y # ys)"

text \<open>
  Modelled from the spec: a JSON number: the digits, then the exponent when it
  is not zero.
\<close>

definition number_text :: "int \<Rightarrow> int \<Rightarrow> string" where
  "number_text m e = int_text m @ (if e = 0 then [] else CHR ''e'' # int_text e)"

text \<open>
  Modelled from the spec: the JSON body of section 4.1 and section 6, the text of a
  JSON value, written without white space.
\<close>

primrec render :: "json \<Rightarrow> string" where
  "render JNull = ''null''"
| "render (JBool b) = (if b then ''true'' else ''false'')"
| "render (JNumber m e) = number_text m e"
| "render (JString s) = quote s"
| "render (JArray vs) = CHR ''['' # commas (map render vs) @ '']''"
| "render (JObject kvs) =
     CHR ''{'' # commas (map (\<lambda>(k, t). quote k @ CHR '':'' # t) (map (map_prod id render) kvs)) @ ''}''"

text \<open>
  Modelled from the spec: the white space of JSON text.
\<close>

definition is_ws :: "char \<Rightarrow> bool" where
  "is_ws c = (c = CHR '' '' \<or> c = CHR 0x09 \<or> c = CHR 0x0A \<or> c = CHR 0x0D)"

text \<open>
  Modelled from the spec: the text after leading white space.
\<close>

definition skip_ws :: "string \<Rightarrow> string" where
  "skip_ws s = dropWhile is_ws s"

text \<open>
  Modelled from the spec: the UTF-8 bytes of a code point.
\<close>

definition utf8 :: "nat \<Rightarrow> string" where
  "utf8 n =
     (if n < 0x80 then [char_of n]
      else if n < 0x800 then [char_of (0xC0 + n div 64), char_of (0x80 + n mod 64)]
      else if n < 0x10000 then
        [char_of (0xE0 + n div 4096), char_of (0x80 + n div 64 mod 64), char_of (0x80 + n mod 64)]
      else
        [char_of (0xF0 + n div 262144), char_of (0x80 + n div 4096 mod 64),
         char_of (0x80 + n div 64 mod 64), char_of (0x80 + n mod 64)])"

text \<open>
  Modelled from the spec: four hexadecimal digits, and the text after them.
\<close>

fun hex4 :: "string \<Rightarrow> (nat \<times> string) option" where
  "hex4 (a # b # c # d # r) =
     (case hex_val a of None \<Rightarrow> None | Some w \<Rightarrow>
       (case hex_val b of None \<Rightarrow> None | Some x \<Rightarrow>
         (case hex_val c of None \<Rightarrow> None | Some y \<Rightarrow>
           (case hex_val d of None \<Rightarrow> None | Some z \<Rightarrow>
              Some (((w * 16 + x) * 16 + y) * 16 + z, r)))))"
| "hex4 _ = None"

text \<open>
  Modelled from the spec: the one-letter escapes of a JSON string.
\<close>

definition simple_escape :: "char \<Rightarrow> char option" where
  "simple_escape e =
     (if e = dquote then Some dquote
      else if e = bslash then Some bslash
      else if e = CHR ''/'' then Some CHR ''/''
      else if e = CHR ''b'' then Some (CHR 0x08)
      else if e = CHR ''f'' then Some (CHR 0x0C)
      else if e = CHR ''n'' then Some (CHR 0x0A)
      else if e = CHR ''r'' then Some (CHR 0x0D)
      else if e = CHR ''t'' then Some (CHR 0x09)
      else None)"

text \<open>
  Modelled from the spec: the text after a backslash: the bytes the escape stands
  for and the text after it. A \<^verbatim>\<open>\u\<close> escape gives the UTF-8 bytes of its code
  point; a high surrogate must be followed by a low one, and the pair gives one code
  point.
\<close>

definition parse_escape :: "string \<Rightarrow> (string \<times> string) option" where
  "parse_escape s =
     (case s of
        [] \<Rightarrow> None
      | e # r \<Rightarrow>
          if e = CHR ''u'' then
            (case hex4 r of
               None \<Rightarrow> None
             | Some (n, r1) \<Rightarrow>
                 if n < 0xD800 \<or> 0xE000 \<le> n then Some (utf8 n, r1)
                 else if 0xDC00 \<le> n then None
                 else
                   (case r1 of
                      b # u # r2 \<Rightarrow>
                        if b = bslash \<and> u = CHR ''u'' then
                          (case hex4 r2 of
                             None \<Rightarrow> None
                           | Some (m, r3) \<Rightarrow>
                               if 0xDC00 \<le> m \<and> m < 0xE000 then
                                 Some (utf8 (0x10000 + (n - 0xD800) * 1024 + (m - 0xDC00)), r3)
                               else None)
                        else None
                    | _ \<Rightarrow> None))
          else (case simple_escape e of None \<Rightarrow> None | Some c \<Rightarrow> Some ([c], r)))"

text \<open>
  Modelled from the spec: the text after an opening quote: the bytes of the
  string and the text after the closing quote. A raw control character is not allowed.
\<close>

function parse_string :: "string \<Rightarrow> (string \<times> string) option" where
  "parse_string [] = None"
| "parse_string (c # cs) =
     (if c = dquote then Some ([], cs)
      else if c = bslash then
        (case parse_escape cs of
           None \<Rightarrow> None
         | Some (bs, r) \<Rightarrow>
             (case parse_string r of None \<Rightarrow> None | Some (t, r') \<Rightarrow> Some (bs @ t, r')))
      else if (of_char c :: nat) < 32 then None
      else (case parse_string cs of None \<Rightarrow> None | Some (t, r') \<Rightarrow> Some (c # t, r')))"
  by pat_completeness auto
termination
proof (relation "measure length")
  show "wf (measure length)" by simp
next
  fix c :: char and cs :: string and x2 :: "string \<times> string" and bs r :: string
  assume esc: "parse_escape cs = Some x2" and x2: "(bs, r) = x2"
  have hex4_shorter: "length r' < length s" if "hex4 s = Some (n, r')" for s r' n
    using that by (cases s rule: hex4.cases) (auto split: option.splits)
  from esc x2 have "length r \<le> length cs"
    unfolding parse_escape_def
    by (auto split: list.splits if_splits option.splits dest!: hex4_shorter)
  then show "(r, c # cs) \<in> measure length" by simp
next
  fix c :: char and cs :: string
  show "(cs, c # cs) \<in> measure length" by simp
qed

text \<open>
  Modelled from the spec: the optional fraction of a number: its digits and
  the text after them.
\<close>

definition parse_fraction :: "string \<Rightarrow> (string \<times> string) option" where
  "parse_fraction s =
     (case s of
        [] \<Rightarrow> Some ([], s)
      | c # r \<Rightarrow>
          if c = CHR ''.'' then
            (if takeWhile is_digit r = [] then None
             else Some (takeWhile is_digit r, dropWhile is_digit r))
          else Some ([], s))"

text \<open>
  Modelled from the spec: an optional sign (a plus only where the second argument
  allows one).
\<close>

definition parse_sign :: "string \<Rightarrow> bool \<Rightarrow> (int \<times> string)" where
  "parse_sign s allow_plus =
     (case s of
        [] \<Rightarrow> (1, s)
      | c # r \<Rightarrow>
          if c = CHR ''-'' then (- 1, r)
          else if allow_plus \<and> c = CHR ''+'' then (1, r)
          else (1, s))"

text \<open>
  Modelled from the spec: the optional exponent of a number.
\<close>

definition parse_exponent :: "string \<Rightarrow> (int \<times> string) option" where
  "parse_exponent s =
     (case s of
        [] \<Rightarrow> Some (0, s)
      | c # r \<Rightarrow>
          if c = CHR ''e'' \<or> c = CHR ''E'' then
            (case parse_sign r True of
               (sg, r1) \<Rightarrow>
                 if takeWhile is_digit r1 = [] then None
                 else Some (sg * int (nat_of_digits (takeWhile is_digit r1)),
                            dropWhile is_digit r1))
          else Some (0, s))"

text \<open>
  Modelled from the spec: digits that start with a zero and go on, which JSON does
  not allow.
\<close>

definition leading_zero :: "string \<Rightarrow> bool" where
  "leading_zero ds = (case ds of c # _ # _ \<Rightarrow> c = CHR ''0'' | _ \<Rightarrow> False)"

text \<open>
  Modelled from the spec: a JSON number: its digits without the decimal point,
  and the power of ten to scale them by.
\<close>

definition parse_number :: "string \<Rightarrow> (json \<times> string) option" where
  "parse_number s =
     (case parse_sign s False of
        (sg, s1) \<Rightarrow>
          if takeWhile is_digit s1 = [] \<or> leading_zero (takeWhile is_digit s1) then None
          else
            (case parse_fraction (dropWhile is_digit s1) of
               None \<Rightarrow> None
             | Some (fp, s3) \<Rightarrow>
                 (case parse_exponent s3 of
                    None \<Rightarrow> None
                  | Some (ex, s4) \<Rightarrow>
                      Some (JNumber (sg * int (nat_of_digits (takeWhile is_digit s1 @ fp)))
                                    (ex - int (length fp)), s4))))"

text \<open>
  Modelled from the spec: "parses them as JSON" (section 4.1). A value, the elements of
  an array after its opening bracket, and the members of an object after its opening
  brace, each with the text that follows. The first argument bounds the depth of the
  calls: a call that runs out of it gives \<open>None\<close>.
\<close>

fun parse_value :: "nat \<Rightarrow> string \<Rightarrow> (json \<times> string) option"
  and parse_elements :: "nat \<Rightarrow> string \<Rightarrow> (json list \<times> string) option"
  and parse_members :: "nat \<Rightarrow> string \<Rightarrow> ((string \<times> json) list \<times> string) option" where
  "parse_value 0 s = None"
| "parse_value (Suc k) s =
     (case skip_ws s of
        [] \<Rightarrow> None
      | c # r \<Rightarrow>
          if c = CHR ''{'' then
            (case skip_ws r of
               [] \<Rightarrow> None
             | d # r' \<Rightarrow>
                 if d = CHR ''}'' then Some (JObject [], r')
                 else (case parse_members k r of
                         None \<Rightarrow> None | Some (kvs, r'') \<Rightarrow> Some (JObject kvs, r'')))
          else if c = CHR ''['' then
            (case skip_ws r of
               [] \<Rightarrow> None
             | d # r' \<Rightarrow>
                 if d = CHR '']'' then Some (JArray [], r')
                 else (case parse_elements k r of
                         None \<Rightarrow> None | Some (vs, r'') \<Rightarrow> Some (JArray vs, r'')))
          else if c = dquote then
            (case parse_string r of None \<Rightarrow> None | Some (t, r') \<Rightarrow> Some (JString t, r'))
          else if c = CHR ''-'' \<or> is_digit c then parse_number (c # r)
          else if take 4 (c # r) = ''null'' then Some (JNull, drop 4 (c # r))
          else if take 4 (c # r) = ''true'' then Some (JBool True, drop 4 (c # r))
          else if take 5 (c # r) = ''false'' then Some (JBool False, drop 5 (c # r))
          else None)"
| "parse_elements 0 s = None"
| "parse_elements (Suc k) s =
     (case parse_value k s of
        None \<Rightarrow> None
      | Some (v, r) \<Rightarrow>
          (case skip_ws r of
             [] \<Rightarrow> None
           | c # r' \<Rightarrow>
               if c = CHR '','' then
                 (case parse_elements k r' of
                    None \<Rightarrow> None | Some (vs, r'') \<Rightarrow> Some (v # vs, r''))
               else if c = CHR '']'' then Some ([v], r')
               else None))"
| "parse_members 0 s = None"
| "parse_members (Suc k) s =
     (case skip_ws s of
        [] \<Rightarrow> None
      | q # r \<Rightarrow>
          if q \<noteq> dquote then None
          else
            (case parse_string r of
               None \<Rightarrow> None
             | Some (key, r1) \<Rightarrow>
                 (case skip_ws r1 of
                    [] \<Rightarrow> None
                  | c # r2 \<Rightarrow>
                      if c \<noteq> CHR '':'' then None
                      else
                        (case parse_value k r2 of
                           None \<Rightarrow> None
                         | Some (v, r3) \<Rightarrow>
                             (case skip_ws r3 of
                                [] \<Rightarrow> None
                              | d # r4 \<Rightarrow>
                                  if d = CHR '','' then
                                    (case parse_members k r4 of
                                       None \<Rightarrow> None
                                     | Some (kvs, r5) \<Rightarrow> Some ((key, v) # kvs, r5))
                                  else if d = CHR ''}'' then Some ([(key, v)], r4)
                                  else None)))))"

text \<open>
  Modelled from the spec: a whole text as one JSON value, with nothing but white
  space after it. The bound it gives the parser is the length of the text plus one.
\<close>

definition parse_json :: "string \<Rightarrow> json option" where
  "parse_json s =
     (case parse_value (Suc (length s)) s of
        None \<Rightarrow> None
      | Some (j, r) \<Rightarrow> if skip_ws r = [] then Some j else None)"

text \<open>
  Modelled from the spec: the id of section 3, \<^verbatim>\<open>int|string\<close>.
\<close>

datatype request_id = NumberId int | StringId string

text \<open>
  Modelled from the spec: the result or the error of a response (section 3: exactly one of
  them). The data of an error may be left out, as in the error response of section 8.
\<close>

datatype outcome = Result json | Error int string "json option"

text \<open>
  Modelled from the spec: the envelope of section 3, a tagged variant.
\<close>

datatype envelope =
    Request request_id string json
  | Response request_id outcome
  | Notification string json

text \<open>
  Modelled from the spec: the three failures of decode named in section 4.1.
\<close>

datatype codec_error = FramingError | ParseError | ProtocolError

text \<open>
  Modelled from the spec: an id as a JSON value, a number or a string (section 6).
\<close>

fun id_json :: "request_id \<Rightarrow> json" where
  "id_json (NumberId n) = JNumber n 0"
| "id_json (StringId s) = JString s"

text \<open>
  Modelled from the spec: the member of the body that carries the outcome of a
  response.
\<close>

fun outcome_member :: "outcome \<Rightarrow> string \<times> json" where
  "outcome_member (Result r) = (''result'', r)"
| "outcome_member (Error c m d) =
     (''error'', JObject ([(''code'', JNumber c 0), (''message'', JString m)]
                          @ (case d of None \<Rightarrow> [] | Some x \<Rightarrow> [(''data'', x)])))"

text \<open>
  Modelled from the spec: the JSON body of an envelope, in the shape of section 6:
  \<^verbatim>\<open>jsonrpc\<close>, then \<^verbatim>\<open>id\<close>, \<^verbatim>\<open>method\<close>, \<^verbatim>\<open>params\<close>,
  \<^verbatim>\<open>result\<close> or \<^verbatim>\<open>error\<close> as the variant has them.
\<close>

fun envelope_json :: "envelope \<Rightarrow> json" where
  "envelope_json (Request i m p) =
     JObject [(''jsonrpc'', JString ''2.0''), (''id'', id_json i), (''method'', JString m),
              (''params'', p)]"
| "envelope_json (Response i out) =
     JObject [(''jsonrpc'', JString ''2.0''), (''id'', id_json i), outcome_member out]"
| "envelope_json (Notification m p) =
     JObject [(''jsonrpc'', JString ''2.0''), (''method'', JString m), (''params'', p)]"

text \<open>
  Modelled from the spec: the line end of the header, CR LF (section 6).
\<close>

definition crlf :: string where
  "crlf = [CHR 0x0D, CHR 0x0A]"

text \<open>
  Modelled from the spec: \<^verbatim>\<open>encode(Envelope) -> bytes\<close> of section 4.1: the
  Content-Length header with the byte count of the body, a blank line, the body.
\<close>

definition encode :: "envelope \<Rightarrow> string" where
  "encode E =
     (let body = render (envelope_json E)
      in ''Content-Length: '' @ digits (length body) @ crlf @ crlf @ body)"

text \<open>
  Modelled from the spec: the text up to the first CR LF, and the text after it.
\<close>

fun read_line :: "string \<Rightarrow> (string \<times> string) option" where
  "read_line (c # d # r) =
     (if c = CHR 0x0D \<and> d = CHR 0x0A then Some ([], r)
      else (case read_line (d # r) of None \<Rightarrow> None | Some (l, r') \<Rightarrow> Some (c # l, r')))"
| "read_line _ = None"

text \<open>
  Modelled from the spec: "reads the header line(s) until a blank line": the header
  lines, and the text after the blank line. The first argument bounds the number of
  lines; decode gives it the length of the stream.
\<close>

fun read_headers :: "nat \<Rightarrow> string \<Rightarrow> (string list \<times> string) option" where
  "read_headers 0 s = None"
| "read_headers (Suc k) s =
     (case read_line s of
        None \<Rightarrow> None
      | Some (l, r) \<Rightarrow>
          if l = [] then Some ([], r)
          else (case read_headers k r of None \<Rightarrow> None | Some (ls, r') \<Rightarrow> Some (l # ls, r')))"

text \<open>
  Modelled from the spec: a space or a tab.
\<close>

definition is_blank :: "char \<Rightarrow> bool" where
  "is_blank c = (c = CHR '' '' \<or> c = CHR 0x09)"

text \<open>
  Modelled from the spec: the name of a header line, up to the colon.
\<close>

definition header_name :: "string \<Rightarrow> string" where
  "header_name l = takeWhile (\<lambda>c. c \<noteq> CHR '':'') l"

text \<open>
  Modelled from the spec: the value of a header line, after the colon, without
  the blanks around it.
\<close>

definition header_value :: "string \<Rightarrow> string" where
  "header_value l =
     rev (dropWhile is_blank (rev (dropWhile is_blank (drop 1 (dropWhile (\<lambda>c. c \<noteq> CHR '':'') l)))))"

text \<open>
  Modelled from the spec: the value of the first Content-Length header, when it is a
  decimal number; a header of any other name (Content-Type) is passed over.
\<close>

fun content_length :: "string list \<Rightarrow> nat option" where
  "content_length [] = None"
| "content_length (l # ls) =
     (if header_name l = ''Content-Length'' then
        (if header_value l \<noteq> [] \<and> list_all is_digit (header_value l)
         then Some (nat_of_digits (header_value l)) else None)
      else content_length ls)"

text \<open>
  Modelled from the spec: the integer a JSON number denotes, if it denotes one.
\<close>

fun json_int :: "json \<Rightarrow> int option" where
  "json_int (JNumber m e) =
     (if 0 \<le> e then Some (m * 10 ^ nat e)
      else if m mod 10 ^ nat (- e) = 0 then Some (m div 10 ^ nat (- e))
      else None)"
| "json_int _ = None"

text \<open>
  Modelled from the spec: an id read back from a JSON value.
\<close>

fun json_id :: "json \<Rightarrow> request_id option" where
  "json_id (JString s) = Some (StringId s)"
| "json_id j = map_option NumberId (json_int j)"

text \<open>
  Modelled from the spec: a string read back from a JSON value.
\<close>

fun json_string :: "json \<Rightarrow> string option" where
  "json_string (JString s) = Some s"
| "json_string _ = None"

text \<open>
  Modelled from the spec: the error object of a response read back.
\<close>

fun json_error :: "json \<Rightarrow> outcome option" where
  "json_error (JObject fs) =
     (case map_of fs ''code'' of
        None \<Rightarrow> None
      | Some c \<Rightarrow>
          (case json_int c of
             None \<Rightarrow> None
           | Some n \<Rightarrow>
               (case map_of fs ''message'' of
                  None \<Rightarrow> None
                | Some m \<Rightarrow>
                    (case json_string m of
                       None \<Rightarrow> None
                     | Some t \<Rightarrow> Some (Error n t (map_of fs ''data''))))))"
| "json_error _ = None"

text \<open>
  Modelled from the spec: the params of a request or notification; when the member
  is absent (section 6 marks it optional) they are null.
\<close>

definition params_of :: "(string \<times> json) list \<Rightarrow> json" where
  "params_of kvs = (case map_of kvs ''params'' of None \<Rightarrow> JNull | Some p \<Rightarrow> p)"

text \<open>
  Modelled from the spec: "classifying the result into the Envelope variant by presence of
  id/method/result/error": a method and an id make a request, a method alone a
  notification, an id with exactly one of result and error a response. Anything else
  is no envelope.
\<close>

fun classify :: "json \<Rightarrow> envelope option" where
  "classify (JObject kvs) =
     (case map_of kvs ''method'' of
        Some mj \<Rightarrow>
          (if map_of kvs ''result'' \<noteq> None \<or> map_of kvs ''error'' \<noteq> None then None
           else
             (case json_string mj of
                None \<Rightarrow> None
              | Some m \<Rightarrow>
                  (case map_of kvs ''id'' of
                     None \<Rightarrow> Some (Notification m (params_of kvs))
                   | Some ij \<Rightarrow>
                       (case json_id ij of
                          None \<Rightarrow> None
                        | Some i \<Rightarrow> Some (Request i m (params_of kvs))))))
      | None \<Rightarrow>
          (case map_of kvs ''id'' of
             None \<Rightarrow> None
           | Some ij \<Rightarrow>
               (case json_id ij of
                  None \<Rightarrow> None
                | Some i \<Rightarrow>
                    (case map_of kvs ''result'' of
                       Some r \<Rightarrow>
                         (if map_of kvs ''error'' \<noteq> None then None
                          else Some (Response i (Result r)))
                     | None \<Rightarrow>
                         (case map_of kvs ''error'' of
                            None \<Rightarrow> None
                          | Some ej \<Rightarrow> map_option (Response i) (json_error ej))))))"
| "classify _ = None"

text \<open>
  Modelled from the spec: \<^verbatim>\<open>decode(stream) -> Envelope\<close> of section 4.1, which
  also gives back the rest of the stream: FramingError for a missing or malformed
  Content-Length header (or a stream that ends before the body does), then exactly
  that many bytes, ParseError when they are not JSON, ProtocolError when the object
  is none of the three variants.
\<close>

definition decode :: "string \<Rightarrow> codec_error + envelope \<times> string" where
  "decode stream =
     (case read_headers (length stream) stream of
        None \<Rightarrow> Inl FramingError
      | Some (hs, r) \<Rightarrow>
          (case content_length hs of
             None \<Rightarrow> Inl FramingError
           | Some n \<Rightarrow>
               if length r < n then Inl FramingError
               else
                 (case parse_json (take n r) of
                    None \<Rightarrow> Inl ParseError
                  | Some j \<Rightarrow>
                      (case classify j of
                         None \<Rightarrow> Inl ProtocolError
                       | Some E \<Rightarrow> Inr (E, drop n r)))))"

subsection \<open>The members of an envelope and their types\<close>







subsection \<open>Notions used in the proofs about the codec\<close>

text \<open>A text that does not go on with a digit.\<close>

definition not_digit_start :: "string \<Rightarrow> bool" where
  "not_digit_start s = (case s of [] \<Rightarrow> True | c # _ \<Rightarrow> \<not> is_digit c)"

text \<open>A text that is empty or starts with what may follow a value inside an array or an object.\<close>

definition ends_value :: "string \<Rightarrow> bool" where
  "ends_value s = (case s of [] \<Rightarrow> True | c # _ \<Rightarrow> c = CHR '','' \<or> c = CHR '']'' \<or> c = CHR ''}'')"

text \<open>A byte that is neither white space nor a closing bracket or brace.\<close>

definition value_start :: "char \<Rightarrow> bool" where
  "value_start c = (\<not> is_ws c \<and> c \<noteq> CHR '']'' \<and> c \<noteq> CHR ''}'')"

text \<open>The text of one member of an object.\<close>

definition member_text :: "string \<times> json \<Rightarrow> string" where
  "member_text kv = quote (fst kv) @ CHR '':'' # render (snd kv)"

section \<open>Properties\<close>

lemma no_var_decls: "filter is_var_decl package_decls = []"
  by (simp add: package_decls_def)

lemma no_func_decls: "filter is_func_decl package_decls = []"
  by (simp add: package_decls_def)

text \<open>
  C6. The error code \<^verbatim>\<open>CodeRequestCancelled\<close> is a package-level constant with the
  fixed value -32800: it is declared as a constant (not as a variable), and the package
  declares no variable and no function, so nothing in it assigns to the name.
\<close>

theorem CodeRequestCancelled_fixed:
  "CodeRequestCancelled = - 32800
   \<and> const_decl package_decls ''CodeRequestCancelled'' = Some (None, IntLit (- 32800))
   \<and> filter (\<lambda>d. decl_name d = ''CodeRequestCancelled'') package_decls
       = [ConstDecl ''CodeRequestCancelled'' None (IntLit (- 32800))]
   \<and> filter is_var_decl package_decls = []
   \<and> filter is_func_decl package_decls = []"
  by (simp add: CodeRequestCancelled_def no_var_decls no_func_decls) (simp add: package_decls_def)

lemma length_package_decls: "length package_decls = 28"
  by (simp add: package_decls_def)







text \<open>
  C2. The package is purely declarative: each of its 28 top-level declarations is a
  type declaration (21 of them) or a constant declaration (7 of them); there is no
  function or method, and no variable.
\<close>

theorem package_is_declarative:
  "list_all (\<lambda>d. is_type_decl d \<or> is_const_decl d) package_decls
   \<and> filter is_func_decl package_decls = []
   \<and> filter is_var_decl package_decls = []
   \<and> length (filter is_type_decl package_decls) = 21
   \<and> length (filter is_const_decl package_decls) = 7
   \<and> length package_decls = 28"
  by (simp add: package_decls_def)

text \<open>
  C3. The Code field of Diagnostic has the single type string (it is not a union of a
  number and a string), so the code of every Diagnostic value is a string.
\<close>

theorem Diagnostic_Code_is_string:
  "struct_field package_decls ''Diagnostic'' ''Code'' = Some (TString, ''code,omitempty'')
   \<and> (\<forall>d :: Diagnostic. \<exists>s :: string. Diagnostic.Code d = s)"
  by (simp add: struct_field_def package_decls_def)

text \<open>
  C4. VersionedTextDocumentIdentifier contains a TextDocumentIdentifier as an embedded
  field, and a selector for URI on it reaches exactly one field, of type DocumentURI,
  through that embedded structure. In the record model the base structure is a field
  of its own (composition), and the URI it was built with is read back through it.
\<close>

theorem VersionedTextDocumentIdentifier_contains_TextDocumentIdentifier:
  "type_decl package_decls ''VersionedTextDocumentIdentifier''
     = Some (TStruct [Embedded ''TextDocumentIdentifier'',
                      Field ''Version'' (TPointer TUint64) ''version''])
   \<and> type_decl package_decls ''TextDocumentIdentifier''
     = Some (TStruct [Field ''URI'' (TNamed ''DocumentURI'') ''uri''])
   \<and> field_paths (length package_decls) package_decls ''VersionedTextDocumentIdentifier'' ''URI''
     = [([''TextDocumentIdentifier'', ''URI''], TNamed ''DocumentURI'')]
   \<and> (\<forall>(u :: DocumentURI) ver.
        TextDocumentIdentifier.URI (VersionedTextDocumentIdentifier.TextDocumentIdentifier
          \<lparr> VersionedTextDocumentIdentifier.TextDocumentIdentifier =
               \<lparr> TextDocumentIdentifier.URI = u \<rparr>,
             VersionedTextDocumentIdentifier.Version = ver \<rparr>) = u)"
  by (simp add: length_package_decls eval_nat_numeral) (simp add: package_decls_def)

text \<open>
  C7. The Arguments field of Command is a slice of empty-interface values, and it is
  the only field of the package whose type mentions the empty interface. The package
  declares no function, so nothing in the schema layer inspects such a value: what it
  holds is left to whoever uses the schema.
\<close>

theorem Command_Arguments_opaque:
  "struct_field package_decls ''Command'' ''Arguments''
     = Some (TSlice TEmptyInterface, ''arguments,omitempty'')
   \<and> interface_fields package_decls = [(''Command'', ''Arguments'')]
   \<and> filter is_func_decl package_decls = []"
  by (simp add: struct_field_def package_decls_def)

text \<open>
  C8. The four severity constants have the values 1, 2, 3 and 4, pairwise distinct, and
  the zero value of DiagnosticSeverity, 0, is none of them. The Severity field of
  Diagnostic is tagged omitempty, so a field left at the zero value is left out of the
  JSON object, and no defined severity is.
\<close>

theorem DiagnosticSeverity_values:
  "SeverityError = 1 \<and> SeverityWarning = 2 \<and> SeverityInformation = 3 \<and> SeverityHint = 4
   \<and> distinct [SeverityError, SeverityWarning, SeverityInformation, SeverityHint]
   \<and> zero_DiagnosticSeverity = 0
   \<and> zero_DiagnosticSeverity
       \<notin> set [SeverityError, SeverityWarning, SeverityInformation, SeverityHint]
   \<and> map (const_decl package_decls)
       [''SeverityError'', ''SeverityWarning'', ''SeverityInformation'', ''SeverityHint'']
     = [Some (Some ''DiagnosticSeverity'', IntLit 1), Some (Some ''DiagnosticSeverity'', IntLit 2),
        Some (Some ''DiagnosticSeverity'', IntLit 3), Some (Some ''DiagnosticSeverity'', IntLit 4)]
   \<and> consts_of_type package_decls ''DiagnosticSeverity''
     = [ConstDecl ''SeverityError'' (Some ''DiagnosticSeverity'') (IntLit 1),
        ConstDecl ''SeverityWarning'' (Some ''DiagnosticSeverity'') (IntLit 2),
        ConstDecl ''SeverityInformation'' (Some ''DiagnosticSeverity'') (IntLit 3),
        ConstDecl ''SeverityHint'' (Some ''DiagnosticSeverity'') (IntLit 4)]
   \<and> type_decl package_decls ''DiagnosticSeverity'' = Some TFloat64
   \<and> struct_field package_decls ''Diagnostic'' ''Severity''
     = Some (TNamed ''DiagnosticSeverity'', ''severity,omitempty'')
   \<and> omitempty ''severity,omitempty''"
  by (simp add: SeverityError_def SeverityWarning_def SeverityInformation_def SeverityHint_def
        zero_DiagnosticSeverity_def struct_field_def omitempty_def consts_of_type_def
        package_decls_def)

text \<open>
  C9. The two MarkupKind constants, PlainText = "plaintext" and Markdown = "markdown",
  are the only constants of that type; neither starts with a dollar sign, and they
  differ.
\<close>

theorem MarkupKind_constants_not_reserved:
  "PlainText = ''plaintext'' \<and> Markdown = ''markdown''
   \<and> \<not> starts_with_dollar PlainText \<and> \<not> starts_with_dollar Markdown
   \<and> PlainText \<noteq> Markdown
   \<and> const_decl package_decls ''PlainText'' = Some (Some ''MarkupKind'', StrLit ''plaintext'')
   \<and> const_decl package_decls ''Markdown'' = Some (Some ''MarkupKind'', StrLit ''markdown'')
   \<and> consts_of_type package_decls ''MarkupKind''
     = [ConstDecl ''PlainText'' (Some ''MarkupKind'') (StrLit ''plaintext''),
        ConstDecl ''Markdown'' (Some ''MarkupKind'') (StrLit ''markdown'')]"
  by (simp add: PlainText_def Markdown_def consts_of_type_def package_decls_def)

text \<open>
  C10. The Version field of VersionedTextDocumentIdentifier is a pointer to uint64, a
  type that has nil, so a value with no version exists; the Version field of
  TextDocumentItem is a float64, a type without nil, so every TextDocumentItem holds a
  number. Neither field is tagged omitempty.
\<close>

theorem Version_nullability:
  "struct_field package_decls ''VersionedTextDocumentIdentifier'' ''Version''
     = Some (TPointer TUint64, ''version'')
   \<and> nilable package_decls (TPointer TUint64)
   \<and> struct_field package_decls ''TextDocumentItem'' ''Version'' = Some (TFloat64, ''version'')
   \<and> \<not> nilable package_decls TFloat64
   \<and> \<not> omitempty ''version''
   \<and> (\<exists>v :: VersionedTextDocumentIdentifier. VersionedTextDocumentIdentifier.Version v = None)
   \<and> (\<forall>t :: TextDocumentItem. \<exists>n :: float64. TextDocumentItem.Version t = n)"
proof -
  have decls:
    "struct_field package_decls ''VersionedTextDocumentIdentifier'' ''Version''
       = Some (TPointer TUint64, ''version'')"
    "struct_field package_decls ''TextDocumentItem'' ''Version'' = Some (TFloat64, ''version'')"
    by (simp_all add: struct_field_def package_decls_def)
  have nil: "nilable package_decls (TPointer TUint64)" "\<not> nilable package_decls TFloat64"
    by (simp_all add: nilable_def)
  have tag: "\<not> omitempty ''version''"
    by (simp add: omitempty_def)
  have "VersionedTextDocumentIdentifier.Version
          \<lparr> VersionedTextDocumentIdentifier.TextDocumentIdentifier =
               \<lparr> TextDocumentIdentifier.URI = [] \<rparr>,
             VersionedTextDocumentIdentifier.Version = None \<rparr> = None"
    by simp
  then have absent:
    "\<exists>v :: VersionedTextDocumentIdentifier. VersionedTextDocumentIdentifier.Version v = None"
    by (rule exI)
  from decls nil tag absent show ?thesis by simp
qed

subsection \<open>The codec: decoding an encoded envelope\<close>

declare digits.simps [simp del]

lemma char_eq_by_code: "(c = d) = ((of_char c :: nat) = of_char d)"
  by simp

lemma digit_char_props:
  "d < 10 \<Longrightarrow> is_digit (digit_char d) \<and> digit_val (digit_char d) = d
     \<and> (digit_char d = CHR ''0'') = (d = 0)"
  unfolding is_digit_def digit_char_def digit_val_def char_eq_by_code [of _ "CHR ''0''"]
  by simp

lemma digits_all: "list_all is_digit (digits n)"
  by (induction n rule: digits.induct) (subst digits.simps, simp add: digit_char_props)

lemma digits_not_Nil: "digits n \<noteq> []"
  by (subst digits.simps) simp

lemma nat_of_digits_snoc: "nat_of_digits (cs @ [c]) = 10 * nat_of_digits cs + digit_val c"
  by (simp add: nat_of_digits_def)

lemma nat_of_digits_digits: "nat_of_digits (digits n) = n"
proof (induction n rule: digits.induct)
  case (1 n)
  show ?case
  proof (cases "n < 10")
    case True
    then show ?thesis
      by (subst digits.simps) (simp add: nat_of_digits_def digit_char_props)
  next
    case False
    with 1 have "nat_of_digits (digits (n div 10)) = n div 10" by simp
    with False show ?thesis
      by (subst digits.simps) (simp add: nat_of_digits_snoc digit_char_props)
  qed
qed

lemma digits_head: "0 < n \<Longrightarrow> \<exists>c cs. digits n = c # cs \<and> c \<noteq> CHR ''0''"
proof (induction n rule: digits.induct)
  case (1 n)
  show ?case
  proof (cases "n < 10")
    case True
    with 1(2) show ?thesis
      by (subst digits.simps) (simp add: digit_char_props)
  next
    case False
    then have "0 < n div 10" by (simp add: div_greater_zero_iff)
    with 1(1) False obtain c cs where "digits (n div 10) = c # cs" "c \<noteq> CHR ''0''"
      by auto
    with False show ?thesis
      by (subst digits.simps) simp
  qed
qed

lemma digits_no_leading_zero: "\<not> leading_zero (digits n)"
proof (cases "n < 10")
  case True
  then show ?thesis by (subst digits.simps) (simp add: leading_zero_def)
next
  case False
  then have "0 < n" by simp
  from digits_head [OF this] show ?thesis
    by (auto simp: leading_zero_def split: list.splits)
qed

lemma takeWhile_digits:
  "not_digit_start r \<Longrightarrow> takeWhile is_digit (digits n @ r) = digits n"
  using digits_all [of n]
  by (cases r) (auto simp: not_digit_start_def takeWhile_append list_all_iff)

lemma dropWhile_digits:
  "not_digit_start r \<Longrightarrow> dropWhile is_digit (digits n @ r) = r"
  using digits_all [of n]
  by (cases r) (auto simp: not_digit_start_def dropWhile_append list_all_iff)

lemma ends_value_not_digit: "ends_value r \<Longrightarrow> not_digit_start r"
  by (auto simp: ends_value_def not_digit_start_def is_digit_def split: list.splits)

lemma digits_start: "\<exists>c cs. digits n = c # cs \<and> is_digit c"
  using digits_all [of n] digits_not_Nil [of n] by (cases "digits n") auto

lemma parse_sign_digits: "parse_sign (digits n @ r) b = (1, digits n @ r)"
proof -
  obtain c cs where "digits n = c # cs" "is_digit c" using digits_start by blast
  then show ?thesis by (auto simp: parse_sign_def is_digit_def)
qed

lemma parse_sign_int_text:
  "parse_sign (int_text i @ r) b = (if i < 0 then - 1 else 1, digits (nat \<bar>i\<bar>) @ r)"
proof (cases "i < 0")
  case True
  then show ?thesis by (simp add: int_text_def parse_sign_def)
next
  case False
  then show ?thesis by (simp add: int_text_def parse_sign_digits)
qed

lemma parse_fraction_none:
  "(case r of [] \<Rightarrow> True | c # _ \<Rightarrow> c \<noteq> CHR ''.'') \<Longrightarrow> parse_fraction r = Some ([], r)"
  by (auto simp: parse_fraction_def split: list.splits)

lemma parse_exponent_none: "ends_value r \<Longrightarrow> parse_exponent r = Some (0, r)"
  by (auto simp: parse_exponent_def ends_value_def split: list.splits)

lemma parse_exponent_some:
  assumes "ends_value r"
  shows "parse_exponent (CHR ''e'' # int_text e @ r) = Some (e, r)"
proof -
  have nd: "not_digit_start r" using assms by (rule ends_value_not_digit)
  have "(if e < 0 then - 1 else 1) * int (nat \<bar>e\<bar>) = e" by simp
  then show ?thesis
    by (simp add: parse_exponent_def parse_sign_int_text takeWhile_digits [OF nd]
        dropWhile_digits [OF nd] digits_not_Nil nat_of_digits_digits del: of_nat_nat)
qed

lemma parse_number_text:
  assumes "ends_value r"
  shows "parse_number (number_text m e @ r) = Some (JNumber m e, r)"
proof -
  let ?tail = "(if e = 0 then [] else CHR ''e'' # int_text e) @ r"
  have nd: "not_digit_start ?tail"
    using ends_value_not_digit [OF assms] by (simp add: not_digit_start_def is_digit_def)
  have frac: "parse_fraction ?tail = Some ([], ?tail)"
    using assms by (intro parse_fraction_none) (auto simp: ends_value_def split: list.splits)
  have expo: "parse_exponent ?tail = Some (e, r)"
    using assms by (simp add: parse_exponent_none parse_exponent_some)
  have sign: "parse_sign (number_text m e @ r) False
                = (if m < 0 then - 1 else 1, digits (nat \<bar>m\<bar>) @ ?tail)"
    using parse_sign_int_text [of m ?tail False] by (simp add: number_text_def)
  have val: "(if m < 0 then - 1 else 1) * int (nat \<bar>m\<bar>) = m" by simp
  show ?thesis
    unfolding parse_number_def sign
    by (simp add: takeWhile_digits [OF nd] dropWhile_digits [OF nd] frac expo
          digits_not_Nil digits_no_leading_zero nat_of_digits_digits val
          del: of_nat_nat)
qed

lemma hex_val_hex_char: "d < 16 \<Longrightarrow> hex_val (hex_char d) = Some d"
  by (auto simp: hex_val_def hex_char_def Let_def)

lemma hex_val_zero: "hex_val CHR ''0'' = Some 0"
  by (simp add: hex_val_def)

lemma parse_escape_control:
  assumes "(of_char c :: nat) < 32"
  shows "parse_escape (CHR ''u'' # CHR ''0'' # CHR ''0'' # hex_char (of_char c div 16)
            # hex_char (of_char c mod 16) # r) = Some ([c], r)"
proof -
  have h1: "hex_val (hex_char (of_char c div 16)) = Some (of_char c div 16)"
    using assms by (intro hex_val_hex_char) simp
  have h2: "hex_val (hex_char (of_char c mod 16)) = Some (of_char c mod 16)"
    by (intro hex_val_hex_char) simp
  have "hex4 (CHR ''0'' # CHR ''0'' # hex_char (of_char c div 16)
            # hex_char (of_char c mod 16) # r) = Some (of_char c, r)"
    by (simp add: hex_val_zero h1 h2)
  moreover have "utf8 (of_char c) = [c]"
    using assms by (simp add: utf8_def)
  ultimately show ?thesis
    using assms by (simp add: parse_escape_def)
qed

lemma parse_escape_quote: "parse_escape (dquote # r) = Some ([dquote], r)"
  by (simp add: parse_escape_def simple_escape_def dquote_def)

lemma parse_escape_bslash: "parse_escape (bslash # r) = Some ([bslash], r)"
  by (simp add: parse_escape_def simple_escape_def dquote_def bslash_def)

lemma parse_string_escaped:
  "parse_string (concat (map escape_char s) @ dquote # r) = Some (s, r)"
proof (induction s)
  case Nil
  show ?case by simp
next
  case (Cons c s)
  let ?rest = "concat (map escape_char s) @ dquote # r"
  consider (q) "c = dquote" | (b) "c = bslash"
    | (ctl) "c \<noteq> dquote" "c \<noteq> bslash" "(of_char c :: nat) < 32"
    | (plain) "c \<noteq> dquote" "c \<noteq> bslash" "\<not> (of_char c :: nat) < 32"
    by blast
  then show ?case
  proof cases
    case q
    have "bslash \<noteq> dquote" by (simp add: bslash_def dquote_def)
    with q Cons show ?thesis
      by (simp add: escape_char_def parse_escape_quote)
  next
    case b
    have "bslash \<noteq> dquote" by (simp add: bslash_def dquote_def)
    with b Cons show ?thesis
      by (simp add: escape_char_def parse_escape_bslash)
  next
    case ctl
    have "bslash \<noteq> dquote" by (simp add: bslash_def dquote_def)
    with ctl Cons show ?thesis
      by (simp add: escape_char_def parse_escape_control)
  next
    case plain
    with Cons show ?thesis
      by (simp add: escape_char_def)
  qed
qed

lemma parse_string_quote: "parse_string (tl (quote s) @ r) = Some (s, r)"
  by (simp add: quote_def parse_string_escaped)

declare parse_value.simps [simp del]

lemma skip_ws_start: "\<not> is_ws c \<Longrightarrow> skip_ws (c # cs) = c # cs"
  by (simp add: skip_ws_def)

lemma ends_value_start:
  "ends_value r \<Longrightarrow> skip_ws r = r"
  by (cases r) (auto simp: ends_value_def skip_ws_def is_ws_def)

lemma quote_start: "quote s = dquote # tl (quote s)"
  by (simp add: quote_def)

lemma int_text_start: "\<exists>c cs. int_text i = c # cs \<and> (c = CHR ''-'' \<or> is_digit c)"
  using digits_start [of "nat i"] by (auto simp: int_text_def)

lemma number_text_start: "\<exists>c cs. number_text m e = c # cs \<and> (c = CHR ''-'' \<or> is_digit c)"
  using int_text_start [of m] by (auto simp: number_text_def)

lemma digit_value_start: "c = CHR ''-'' \<or> is_digit c \<Longrightarrow> value_start c"
  by (auto simp: value_start_def is_digit_def is_ws_def)

lemma render_start: "\<exists>c cs. render j = c # cs \<and> value_start c"
proof (cases j)
  case (JNumber m e)
  then show ?thesis using number_text_start [of m e] digit_value_start by auto
qed (auto simp: value_start_def is_ws_def quote_def dquote_def)

lemma parse_value_null: "parse_value (Suc k) (''null'' @ r) = Some (JNull, r)"
  by (simp add: parse_value.simps skip_ws_def is_ws_def dquote_def is_digit_def)

lemma parse_value_true: "parse_value (Suc k) (''true'' @ r) = Some (JBool True, r)"
  by (simp add: parse_value.simps skip_ws_def is_ws_def dquote_def is_digit_def)

lemma parse_value_false: "parse_value (Suc k) (''false'' @ r) = Some (JBool False, r)"
  by (simp add: parse_value.simps skip_ws_def is_ws_def dquote_def is_digit_def)

lemma parse_value_number:
  assumes "ends_value r"
  shows "parse_value (Suc k) (number_text m e @ r) = Some (JNumber m e, r)"
proof -
  obtain c cs where c: "number_text m e = c # cs" "c = CHR ''-'' \<or> is_digit c"
    using number_text_start by blast
  then have "\<not> is_ws c" "c \<noteq> CHR ''{''" "c \<noteq> CHR ''[''" "c \<noteq> dquote"
    by (auto simp: is_ws_def is_digit_def dquote_def)
  with c have "parse_value (Suc k) ((c # cs) @ r) = parse_number ((c # cs) @ r)"
    by (simp add: parse_value.simps skip_ws_start)
  with c(1) parse_number_text [OF assms, of m e] show ?thesis by simp
qed

lemma parse_value_string: "parse_value (Suc k) (quote s @ r) = Some (JString s, r)"
proof -
  have "parse_value (Suc k) (dquote # tl (quote s) @ r) = Some (JString s, r)"
    by (simp add: parse_value.simps skip_ws_def is_ws_def dquote_def parse_string_quote
          [unfolded dquote_def])
  then show ?thesis by (simp add: quote_def)
qed

lemma parse_value_empty_array: "parse_value (Suc k) (''[]'' @ r) = Some (JArray [], r)"
  by (simp add: parse_value.simps skip_ws_def is_ws_def)

lemma parse_value_empty_object: "parse_value (Suc k) (''{}'' @ r) = Some (JObject [], r)"
  by (simp add: parse_value.simps skip_ws_def is_ws_def)

lemma parse_value_array:
  assumes "value_start c"
  shows "parse_value (Suc k) (CHR ''['' # c # cs) =
           (case parse_elements k (c # cs) of
              None \<Rightarrow> None | Some (vs, r) \<Rightarrow> Some (JArray vs, r))"
  using assms by (simp add: parse_value.simps skip_ws_def is_ws_def value_start_def)

lemma parse_value_object:
  assumes "value_start c"
  shows "parse_value (Suc k) (CHR ''{'' # c # cs) =
           (case parse_members k (c # cs) of
              None \<Rightarrow> None | Some (kvs, r) \<Rightarrow> Some (JObject kvs, r))"
  using assms by (simp add: parse_value.simps skip_ws_def is_ws_def value_start_def)

lemma parse_elements_step:
  assumes "parse_value k s = Some (v, c # r)" "c = CHR '','' \<or> c = CHR '']''"
  shows "parse_elements (Suc k) s =
           (if c = CHR '','' then
              (case parse_elements k r of None \<Rightarrow> None | Some (vs, r') \<Rightarrow> Some (v # vs, r'))
            else Some ([v], r))"
  using assms by (auto simp: parse_value.simps skip_ws_def is_ws_def)

lemma parse_members_step:
  assumes "parse_value k s = Some (v, c # r)" "c = CHR '','' \<or> c = CHR ''}''"
  shows "parse_members (Suc k) (quote key @ CHR '':'' # s) =
           (if c = CHR '','' then
              (case parse_members k r of
                 None \<Rightarrow> None | Some (kvs, r') \<Rightarrow> Some ((key, v) # kvs, r'))
            else Some ([(key, v)], r))"
    (is "_ = ?rhs")
proof -
  have "parse_members (Suc k) (dquote # tl (quote key) @ CHR '':'' # s) = ?rhs"
    using assms
    by (auto simp: parse_value.simps skip_ws_def is_ws_def dquote_def
          parse_string_quote [unfolded dquote_def])
  then show ?thesis by (simp add: quote_def)
qed

lemma render_object: "render (JObject kvs) = CHR ''{'' # commas (map member_text kvs) @ ''}''"
  by (simp add: comp_def case_prod_beta member_text_def [abs_def])

lemma member_text_pair: "member_text (key, v) = quote key @ CHR '':'' # render v"
  by (simp add: member_text_def)

lemma ends_value_simps:
  "ends_value (CHR '','' # r)" "ends_value (CHR '']'' # r)" "ends_value (CHR ''}'' # r)"
  "ends_value []"
  by (simp_all add: ends_value_def)

lemma parse_elements_render:
  assumes IH: "\<And>v k r. v \<in> set vs \<Longrightarrow> length (render v) \<le> k \<Longrightarrow> ends_value r
                 \<Longrightarrow> parse_value k (render v @ r) = Some (v, r)"
    and "vs \<noteq> []" and "length (commas (map render vs)) < k"
  shows "parse_elements k (commas (map render vs) @ CHR '']'' # r) = Some (vs, r)"
  using assms
proof (induction vs arbitrary: k)
  case Nil
  then show ?case by simp
next
  case (Cons v vs)
  from Cons.prems(3) obtain k' where k: "k = Suc k'" by (cases k) auto
  show ?case
  proof (cases vs)
    case Nil
    with Cons.prems(3) k have "length (render v) \<le> k'" by simp
    then have "parse_value k' (render v @ CHR '']'' # r) = Some (v, CHR '']'' # r)"
      by (intro Cons.prems(1)) (simp_all add: ends_value_simps)
    from parse_elements_step [OF this] Nil k show ?thesis by simp
  next
    case (Cons w ws)
    let ?rest = "commas (map render (w # ws)) @ CHR '']'' # r"
    from Cons Cons.prems(3) k
    have len: "length (render v) \<le> k'" "length (commas (map render (w # ws))) < k'"
      by simp_all
    have "parse_value k' (render v @ CHR '','' # ?rest) = Some (v, CHR '','' # ?rest)"
      using len(1) by (intro Cons.prems(1)) (simp_all add: ends_value_simps)
    from parse_elements_step [OF this]
    have "parse_elements (Suc k') (render v @ CHR '','' # ?rest)
            = (case parse_elements k' ?rest of
                 None \<Rightarrow> None | Some (us, r') \<Rightarrow> Some (v # us, r'))"
      by simp
    moreover have "parse_elements k' ?rest = Some (w # ws, r)"
      using Cons.IH [of k'] Cons.prems(1) len(2) Cons by simp
    ultimately show ?thesis using Cons k by simp
  qed
qed

lemma parse_members_render:
  assumes IH: "\<And>kv k r. kv \<in> set kvs \<Longrightarrow> length (render (snd kv)) \<le> k \<Longrightarrow> ends_value r
                 \<Longrightarrow> parse_value k (render (snd kv) @ r) = Some (snd kv, r)"
    and "kvs \<noteq> []" and "length (commas (map member_text kvs)) < k"
  shows "parse_members k (commas (map member_text kvs) @ CHR ''}'' # r) = Some (kvs, r)"
  using assms
proof (induction kvs arbitrary: k)
  case Nil
  then show ?case by simp
next
  case (Cons kv kvs)
  obtain key v where kv: "kv = (key, v)" by (cases kv)
  from Cons.prems(3) obtain k' where k: "k = Suc k'" by (cases k) auto
  show ?case
  proof (cases kvs)
    case Nil
    with Cons.prems(3) k kv have "length (render v) \<le> k'" by (simp add: member_text_pair)
    then have "parse_value k' (render v @ CHR ''}'' # r) = Some (v, CHR ''}'' # r)"
      using Cons.prems(1) [of kv k' "CHR ''}'' # r"] kv by (simp add: ends_value_simps)
    from parse_members_step [OF this, of key] Nil k kv show ?thesis
      by (simp add: member_text_pair)
  next
    case (Cons w ws)
    let ?rest = "commas (map member_text (w # ws)) @ CHR ''}'' # r"
    from Cons Cons.prems(3) k kv
    have len: "length (render v) \<le> k'" "length (commas (map member_text (w # ws))) < k'"
      by (simp_all add: member_text_pair)
    have "parse_value k' (render v @ CHR '','' # ?rest) = Some (v, CHR '','' # ?rest)"
      using len(1) Cons.prems(1) [of kv k' "CHR '','' # ?rest"] kv
      by (simp add: ends_value_simps)
    from parse_members_step [OF this, of key]
    have "parse_members (Suc k') (quote key @ CHR '':'' # render v @ CHR '','' # ?rest)
            = (case parse_members k' ?rest of
                 None \<Rightarrow> None | Some (us, r') \<Rightarrow> Some ((key, v) # us, r'))"
      by simp
    moreover have "parse_members k' ?rest = Some (w # ws, r)"
      using Cons.IH [of k'] Cons.prems(1) len(2) Cons by simp
    ultimately show ?thesis using Cons k kv by (simp add: member_text_pair)
  qed
qed

lemma commas_start:
  assumes "xs \<noteq> []" "\<exists>c cs. hd xs = c # cs \<and> P c"
  shows "\<exists>c cs. commas xs @ r = c # cs \<and> P c"
proof (cases xs)
  case Nil
  with assms show ?thesis by simp
next
  case (Cons x ys)
  with assms obtain c cs where "x = c # cs" "P c" by auto
  with Cons show ?thesis by (cases ys) auto
qed

lemma parse_value_render:
  "length (render j) \<le> k \<Longrightarrow> ends_value r \<Longrightarrow> parse_value k (render j @ r) = Some (j, r)"
proof (induction j arbitrary: k r)
  case JNull
  then obtain k' where "k = Suc k'" by (cases k) auto
  then show ?case using parse_value_null by simp
next
  case (JBool b)
  then obtain k' where "k = Suc k'" by (cases k) (auto split: if_splits)
  then show ?case using parse_value_true parse_value_false by (cases b) simp_all
next
  case (JNumber m e)
  have "number_text m e \<noteq> []" using number_text_start [of m e] by auto
  with JNumber obtain k' where "k = Suc k'" by (cases k) auto
  then show ?case using parse_value_number [OF JNumber(2)] by simp
next
  case (JString s)
  then obtain k' where "k = Suc k'" by (cases k) (auto simp: quote_def)
  then show ?case using parse_value_string by simp
next
  case (JArray vs)
  from JArray.prems obtain k' where k: "k = Suc k'" by (cases k) auto
  show ?case
  proof (cases "vs = []")
    case True
    then show ?thesis using k parse_value_empty_array [of k' r] by simp
  next
    case False
    let ?body = "commas (map render vs) @ CHR '']'' # r"
    have "\<exists>c cs. hd (map render vs) = c # cs \<and> value_start c"
      using False render_start [of "hd vs"] by (simp add: hd_map)
    with False obtain c cs where start: "?body = c # cs" "value_start c"
      using commas_start [of "map render vs" value_start "CHR '']'' # r"] by auto
    have len: "length (commas (map render vs)) < k'"
      using JArray.prems(1) k by simp
    have "parse_elements k' ?body = Some (vs, r)"
      using JArray.IH False len by (intro parse_elements_render) auto
    with start parse_value_array [OF start(2), of k' cs] k show ?thesis by simp
  qed
next
  case (JObject kvs)
  from JObject.prems obtain k' where k: "k = Suc k'" by (cases k) auto
  show ?case
  proof (cases "kvs = []")
    case True
    then show ?thesis using k parse_value_empty_object [of k' r] by simp
  next
    case False
    let ?body = "commas (map member_text kvs) @ CHR ''}'' # r"
    have "value_start dquote" by (simp add: value_start_def is_ws_def dquote_def)
    then have "\<exists>c cs. hd (map member_text kvs) = c # cs \<and> value_start c"
      using False by (simp add: hd_map member_text_def quote_def)
    with False obtain c cs where start: "?body = c # cs" "value_start c"
      using commas_start [of "map member_text kvs" value_start "CHR ''}'' # r"] by auto
    have len: "length (commas (map member_text kvs)) < k'"
      using JObject.prems(1) k by (simp add: render_object del: render.simps)
    have IH: "parse_value n (render (snd kv) @ t) = Some (snd kv, t)"
      if "kv \<in> set kvs" "length (render (snd kv)) \<le> n" "ends_value t" for kv n t
      using JObject.IH [of kv "snd kv" n t] that by (cases kv) auto
    have "parse_members k' ?body = Some (kvs, r)"
      using IH False len by (intro parse_members_render) auto
    with start parse_value_object [OF start(2), of k' cs] k show ?thesis
      by (simp add: render_object del: render.simps)
  qed
qed

lemma parse_json_render: "parse_json (render j) = Some j"
  using parse_value_render [of j "Suc (length (render j))" "[]"]
  by (simp add: parse_json_def ends_value_simps skip_ws_def)

lemma read_line_crlf:
  "CHR 0x0D \<notin> set l \<Longrightarrow> read_line (l @ crlf @ r) = Some (l, r)"
proof (induction l)
  case Nil
  show ?case by (simp add: crlf_def)
next
  case (Cons c l)
  then have IH: "read_line (l @ crlf @ r) = Some (l, r)" and c: "c \<noteq> CHR 0x0D" by auto
  obtain d t where dt: "l @ crlf @ r = d # t" by (cases "l @ crlf @ r") (auto simp: crlf_def)
  with IH c show ?case by simp
qed

lemma digit_not_special:
  "is_digit c \<Longrightarrow> c \<noteq> CHR 0x0D \<and> \<not> is_blank c \<and> c \<noteq> CHR '':''"
  by (auto simp: is_digit_def is_blank_def)

lemma digits_no_cr: "CHR 0x0D \<notin> set (digits n)"
  using digits_all [of n] digit_not_special by (auto simp: list_all_iff)

lemma dropWhile_blank_digits:
  assumes "list_all is_digit ds"
  shows "dropWhile is_blank ds = ds"
proof (cases ds)
  case Nil
  then show ?thesis by simp
next
  case (Cons c cs)
  with assms have "is_digit c" by simp
  with Cons show ?thesis using digit_not_special by simp
qed

lemma header_name_content_length:
  "header_name (''Content-Length: '' @ ds) = ''Content-Length''"
  by (simp add: header_name_def)

lemma header_value_content_length:
  assumes "list_all is_digit ds"
  shows "header_value (''Content-Length: '' @ ds) = ds"
proof -
  have "dropWhile is_blank (CHR '' '' # ds) = ds"
    using dropWhile_blank_digits [OF assms] by (simp add: is_blank_def)
  moreover have "dropWhile is_blank (rev ds) = rev ds"
    using assms by (intro dropWhile_blank_digits) simp
  ultimately show ?thesis by (simp add: header_value_def)
qed

lemma content_length_header:
  "content_length [''Content-Length: '' @ digits n] = Some n"
  using header_value_content_length [OF digits_all, of n]
  by (simp add: header_name_content_length digits_all digits_not_Nil nat_of_digits_digits
        del: append.simps)

lemma read_headers_frame:
  "read_headers (Suc (Suc k)) ((''Content-Length: '' @ digits n) @ crlf @ crlf @ body)
     = Some ([''Content-Length: '' @ digits n], body)"
proof -
  let ?line = "''Content-Length: '' @ digits n"
  have nocr: "CHR 0x0D \<notin> set ?line" using digits_no_cr [of n] by simp
  have first: "read_line (?line @ crlf @ crlf @ body) = Some (?line, crlf @ body)"
    using read_line_crlf [OF nocr, of "crlf @ body"] by simp
  have second: "read_line (crlf @ body) = Some ([], body)"
    using read_line_crlf [of "[]" body] by simp
  have "?line \<noteq> []" by simp
  with first second show ?thesis by (simp del: append.simps append_assoc)
qed

lemma json_id_id_json: "json_id (id_json i) = Some i"
  by (cases i) simp_all

lemma classify_envelope_json: "classify (envelope_json E) = Some E"
proof (cases E)
  case (Request i m p)
  then show ?thesis by (simp add: json_id_id_json params_of_def)
next
  case (Response i out)
  show ?thesis
  proof (cases out)
    case (Result r)
    with Response show ?thesis by (simp add: json_id_id_json)
  next
    case (Error c m d)
    with Response show ?thesis by (cases d) (simp_all add: json_id_id_json)
  qed
next
  case (Notification m p)
  then show ?thesis by (simp add: params_of_def)
qed

lemma decode_encode_frame: "decode (encode E @ rest) = Inr (E, rest)"
proof -
  let ?body = "render (envelope_json E)"
  let ?line = "''Content-Length: '' @ digits (length ?body)"
  have enc: "encode E @ rest = ?line @ crlf @ crlf @ ?body @ rest"
    by (simp add: encode_def Let_def)
  have "2 \<le> length (encode E @ rest)" by (simp add: enc crlf_def)
  then obtain k where k: "length (encode E @ rest) = Suc (Suc k)"
    by (metis add_2_eq_Suc le_Suc_ex)
  have hdr: "read_headers (length (encode E @ rest)) (encode E @ rest)
               = Some ([?line], ?body @ rest)"
    unfolding k unfolding enc by (rule read_headers_frame)
  have len: "content_length [?line] = Some (length ?body)"
    by (rule content_length_header)
  show ?thesis
    unfolding decode_def hdr
    by (simp add: len parse_json_render classify_envelope_json
          del: append.simps content_length.simps)
qed

text \<open>
  The frame of the request with id 1, method \<^verbatim>\<open>foo\<close> and empty params: a body
  of 51 bytes behind its header.
\<close>

lemma frame_example:
  "length (render (envelope_json (Request (NumberId 1) ''foo'' (JObject [])))) = 51
   \<and> take 22 (encode (Request (NumberId 1) ''foo'' (JObject [])))
       = ''Content-Length: 51'' @ crlf @ crlf"
  by code_simp

text \<open>
  The decoder is no mere inverse of the encoder: it fails, with the error of the
  specification, on a stream without a Content-Length header, on one that ends before
  the body does, on a body that is not JSON and on an object that is no envelope; and
  it accepts white space and further headers that the encoder never writes.
\<close>

lemma decode_examples:
  \<open>decode [] = Inl FramingError
   \<and> decode (''Content-Type: x'' @ crlf @ crlf @ ''{}'') = Inl FramingError
   \<and> decode (''Content-Length: 9'' @ crlf @ crlf @ ''{}'') = Inl FramingError
   \<and> decode (''Content-Length: 2'' @ crlf @ crlf @ ''{x'') = Inl ParseError
   \<and> decode (''Content-Length: 2'' @ crlf @ crlf @ ''{}'') = Inl ProtocolError
   \<and> decode (''Content-Length: 35'' @ crlf @ crlf @ ''{"id":1,"result":null,"error":null}'')
       = Inl ProtocolError
   \<and> decode (''Content-Type: x'' @ crlf @ ''Content-Length: 25'' @ crlf @ crlf
               @ ''{ "id" : 7, "result":[] }next'')
       = Inr (Response (NumberId 7) (Result (JArray [])), ''next'')\<close>
  by code_simp

text \<open>
  C5. Decoding the encoding of an envelope gives the envelope back, for every envelope:
  \<^verbatim>\<open>decode (encode E) = E\<close>, with nothing of the stream left over. The same holds
  in front of any further bytes of the stream, which decode leaves untouched: it reads
  the header, exactly the announced number of bytes, and classifies the parsed object
  as the variant that was encoded.
\<close>

theorem decode_encode_roundtrip:
  "decode (encode E) = Inr (E, []) \<and> decode (encode E @ rest) = Inr (E, rest)"
  using decode_encode_frame [of E "[]"] decode_encode_frame [of E rest] by simp

end
